theory Spec2Isabelle
  imports Main "HOL-Library.Sublist" "HOL-Library.AList" "HOL-Library.Word"
begin

unbundle bit_operations_syntax

section \<open>Strings as the JavaScript runtime sees them\<close>

text \<open>
  A JavaScript string is modelled as a \<^typ>\<open>string\<close>: a list of code units in the range
  0..255 (Latin-1). White space (\<open>\s\<close>, \<open>trim\<close>) is tab, line feed, vertical tab, form
  feed, carriage return, space and the no-break space. \<open>[A-Z]\<close>, \<open>[a-z]\<close> and \<open>[0-9]\<close> are
  \<open>is_upper\<close>, \<open>is_lower\<close> and \<open>is_digit\<close>.

  \<open>toLowerCase\<close> lowers A to Z and the Latin-1 capitals U+00C0 to U+00DE (not the
  multiplication sign U+00D7). \<open>toUpperCase\<close> raises a to z and the Latin-1 small letters
  U+00E0 to U+00FE (not the division sign U+00F7), and turns the sharp s U+00DF into SS.
  Two code units have an upper case outside the range, the micro sign U+00B5 and
  U+00FF: the model leaves them as they are, and a text in which the code would raise
  one of them is outside the model.
\<close>

definition is_upper :: "char \<Rightarrow> bool" where
  "is_upper c = (65 \<le> (of_char c :: nat) \<and> (of_char c :: nat) \<le> 90)"

definition is_lower :: "char \<Rightarrow> bool" where
  "is_lower c = (97 \<le> (of_char c :: nat) \<and> (of_char c :: nat) \<le> 122)"

definition is_digit :: "char \<Rightarrow> bool" where
  "is_digit c = (48 \<le> (of_char c :: nat) \<and> (of_char c :: nat) \<le> 57)"

definition is_space :: "char \<Rightarrow> bool" where
  "is_space c = ((of_char c :: nat) \<in> {9, 10, 11, 12, 13, 32, 160})"

definition is_latin_upper :: "char \<Rightarrow> bool" where
  "is_latin_upper c =
     (192 \<le> (of_char c :: nat) \<and> (of_char c :: nat) \<le> 222 \<and> (of_char c :: nat) \<noteq> 215)"

definition is_latin_lower :: "char \<Rightarrow> bool" where
  "is_latin_lower c =
     (224 \<le> (of_char c :: nat) \<and> (of_char c :: nat) \<le> 254 \<and> (of_char c :: nat) \<noteq> 247)"

definition to_lower :: "char \<Rightarrow> char" where
  "to_lower c =
     (if is_upper c \<or> is_latin_upper c then char_of ((of_char c :: nat) + 32) else c)"

definition to_upper :: "char \<Rightarrow> string" where
  "to_upper c =
     (if is_lower c \<or> is_latin_lower c then [char_of ((of_char c :: nat) - 32)]
      else if (of_char c :: nat) = 223 then ''SS''
      else [c])"

definition toLowerCase :: "string \<Rightarrow> string" where
  "toLowerCase s = map to_lower s"

definition toUpperCase :: "string \<Rightarrow> string" where
  "toUpperCase s = concat (map to_upper s)"

definition trim :: "string \<Rightarrow> string" where
  "trim s = rev (dropWhile is_space (rev (dropWhile is_space s)))"

text \<open>\<open>s.startsWith(p)\<close> and \<open>s.includes(p)\<close>.\<close>

definition startsWith :: "string \<Rightarrow> string \<Rightarrow> bool" where
  "startsWith s p = prefix p s"

fun str_includes :: "string \<Rightarrow> string \<Rightarrow> bool" where
  "str_includes [] p = (p = [])"
| "str_includes (c # cs) p = (prefix p (c # cs) \<or> str_includes cs p)"

text \<open>\<open>s.split(c)\<close> for a one-character separator: never an empty array.\<close>

fun split_on :: "char \<Rightarrow> string \<Rightarrow> string list" where
  "split_on c [] = [[]]"
| "split_on c (x # xs) =
     (if x = c then [] # split_on c xs
      else (case split_on c xs of
              [] \<Rightarrow> [[x]]
            | h # t \<Rightarrow> (x # h) # t))"

text \<open>\<open>s.replace(p, r)\<close> with a string pattern: only the first occurrence is replaced.\<close>

fun replace_first :: "string \<Rightarrow> string \<Rightarrow> string \<Rightarrow> string" where
  "replace_first p r [] = (if p = [] then r else [])"
| "replace_first p r (c # cs) =
     (if prefix p (c # cs) then r @ drop (length p) (c # cs)
      else c # replace_first p r cs)"

text \<open>A value that is a string or \<open>undefined\<close>.\<close>

datatype jsval = JStr string | JUndefined

text \<open>\<open>xs[i]\<close> on an array of strings: \<open>undefined\<close> out of range.\<close>

definition js_index :: "string list \<Rightarrow> nat \<Rightarrow> jsval" where
  "js_index xs i = (if i < length xs then JStr (xs ! i) else JUndefined)"

section \<open>Errors\<close>

text \<open>
  Every \<open>throw new Error(...)\<close> of the two services is a constructor:
  \<^item> \<open>UnsupportedFormat\<close>: 'Formato de imagen no soportado' (openai.service.ts, line 98);
  \<^item> \<open>DependencyUnavailable\<close>: 'Servicios requeridos no disponibles'
    (auto-navigation service, line 21);
  \<^item> \<open>FiguraServiceUnavailable\<close>: 'No se pudo obtener el servicio de figuras', rethrown as
    'Error al crear figuras: ...' (openai.service.ts, lines 880 and 909);
  \<^item> \<open>CollaboratorError\<close>: anything a collaborator (view or figure service) throws.
\<close>

datatype error =
    UnsupportedFormat
  | DependencyUnavailable
  | FiguraServiceUnavailable
  | CollaboratorError string

section \<open>Image preparation (\<open>OpenAIService.prepareImageBase64\<close>)\<close>

text \<open>\<open>Buffer.toString('base64')\<close>: the standard alphabet, padded with \<open>=\<close>.\<close>

definition b64chars :: string where
  "b64chars = ''ABCDEFGHIJKLMNOPQRSTUVWXYZabcdefghijklmnopqrstuvwxyz0123456789+/''"

definition b64 :: "8 word \<Rightarrow> char" where
  "b64 w = b64chars ! unat (w AND 63)"

fun base64 :: "8 word list \<Rightarrow> string" where
  "base64 [] = []"
| "base64 [a] = [b64 (drop_bit 2 a), b64 (push_bit 4 (a AND 3)), CHR ''='', CHR ''='']"
| "base64 [a, b] =
     [b64 (drop_bit 2 a), b64 (push_bit 4 (a AND 3) OR drop_bit 4 b),
      b64 (push_bit 2 (b AND 15)), CHR ''='']"
| "base64 (a # b # c # r) =
     [b64 (drop_bit 2 a), b64 (push_bit 4 (a AND 3) OR drop_bit 4 b),
      b64 (push_bit 2 (b AND 15) OR drop_bit 6 c), b64 (c AND 63)] @ base64 r"

text \<open>
  The argument is typed \<open>Buffer | string\<close>, but nothing checks it before the call:
  \<open>OtherShape\<close> stands for every other run-time value (\<open>null\<close>, \<open>undefined\<close>, a number,
  an object).
\<close>

datatype image_input = Buffer "8 word list" | Str string | OtherShape

fun prepareImageBase64 :: "image_input \<Rightarrow> error + jsval" where
  "prepareImageBase64 (Buffer bs) = Inr (JStr (base64 bs))"
| "prepareImageBase64 (Str img) =
     (if startsWith img ''data:image'' then Inr (js_index (split_on CHR '','' img) 1)
      else Inr (JStr img))"
| "prepareImageBase64 OtherShape = Inl UnsupportedFormat"

text \<open>
  The two readings of "strip the prefix": everything after the first comma, and the
  segment between the first comma and the next one (or the end of the string).
\<close>

definition after_first_comma :: "string \<Rightarrow> string" where
  "after_first_comma s = drop 1 (dropWhile (\<lambda>c. c \<noteq> CHR '','') s)"





section \<open>Navigation synthesis (\<open>AutoNavigationService\<close>)\<close>

record vista =
  vista_id :: string
  vista_nombre :: string
  vista_proyecto :: "string option"

record 'f vista_detail =
  vd_id :: string
  nombre :: string
  figuras :: "'f list"
  proyecto :: "string option"

record route =
  route_name :: string
  screenName :: string
  path :: string
  isInitial :: bool
  description :: string
  figuraCount :: nat

text \<open>
  \<open>toSnakeCase\<close> of the navigation service:
  \<open>text.replace(/([A-Z])/g, '_$1').toLowerCase().replace(/^_/, '').replace(/\s+/g, '_')\<close>.
\<close>

definition underscore_capitals :: "string \<Rightarrow> string" where
  "underscore_capitals s = concat (map (\<lambda>c. if is_upper c then [CHR ''_'', c] else [c]) s)"

definition drop_leading_underscore :: "string \<Rightarrow> string" where
  "drop_leading_underscore s = (case s of [] \<Rightarrow> [] | c # cs \<Rightarrow> if c = CHR ''_'' then cs else c # cs)"

function spaces_to_underscore :: "string \<Rightarrow> string" where
  "spaces_to_underscore [] = []"
| "spaces_to_underscore (c # cs) =
     (if is_space c then CHR ''_'' # spaces_to_underscore (dropWhile is_space cs)
      else c # spaces_to_underscore cs)"
  by pat_completeness auto
termination
  by (relation "measure length") (auto simp: le_imp_less_Suc length_dropWhile_le)

definition navToSnakeCase :: "string \<Rightarrow> string" where
  "navToSnakeCase s =
     spaces_to_underscore (drop_leading_underscore (toLowerCase (underscore_capitals s)))"

text \<open>
  \<open>toPascalCase\<close> of the navigation service: \<open>text.split(/[\s_-]+/)\<close>, each word with its
  first character upper-cased and the rest lower-cased, joined.
\<close>

definition is_word_sep :: "char \<Rightarrow> bool" where
  "is_word_sep c = (is_space c \<or> c = CHR ''_'' \<or> c = CHR ''-'')"

function split_runs :: "(char \<Rightarrow> bool) \<Rightarrow> string \<Rightarrow> string list" where
  "split_runs P [] = [[]]"
| "split_runs P (c # cs) =
     (if P c then [] # split_runs P (dropWhile P cs)
      else (case split_runs P cs of
              [] \<Rightarrow> [[c]]
            | h # t \<Rightarrow> (c # h) # t))"
  by pat_completeness auto
termination
  by (relation "measure (\<lambda>(P, s). length s)") (auto simp: le_imp_less_Suc length_dropWhile_le)

definition capitalize_lower :: "string \<Rightarrow> string" where
  "capitalize_lower w = toUpperCase (take 1 w) @ toLowerCase (drop 1 w)"

definition navToPascalCase :: "string \<Rightarrow> string" where
  "navToPascalCase s = concat (map capitalize_lower (split_runs is_word_sep s))"

text \<open>\<open>determineIfInitial\<close>: the loop over the keyword list, then \<open>index === 0\<close>.\<close>

definition initialPatterns :: "string list" where
  "initialPatterns =
     [''login'', ''signin'', ''auth'', ''welcome'', ''onboarding'',
      ''splash'', ''home'', ''dashboard'', ''main'', ''inicio'', ''principal'']"

fun includes_any :: "string \<Rightarrow> string list \<Rightarrow> bool" where
  "includes_any nm [] = False"
| "includes_any nm (p # ps) = (if str_includes nm p then True else includes_any nm ps)"

definition determineIfInitial :: "'f vista_detail \<Rightarrow> nat \<Rightarrow> bool" where
  "determineIfInitial v index =
     (if includes_any (toLowerCase (nombre v)) initialPatterns then True else index = 0)"

definition mkRoute :: "'f vista_detail \<Rightarrow> nat \<Rightarrow> route" where
  "mkRoute v index =
     \<lparr> route_name = navToSnakeCase (nombre v),
       screenName = navToPascalCase (nombre v) @ ''Screen'',
       path = ''/'' @ navToSnakeCase (nombre v),
       isInitial = determineIfInitial v index,
       description = nombre v,
       figuraCount = length (figuras v) \<rparr>"

text \<open>
  \<open>createNavigationStructure\<close> returns the routes and one generated file, a template over
  the routes, the project name and the initial route. Of the file the model keeps the
  initial route it names: \<open>routes.find(r => r.isInitial)?.path || routes[0]?.path || '/'\<close>
  (\<open>generateSimpleMainApp\<close>, line 95).
\<close>

record navigation =
  routes :: "route list"
  initialRoute :: string

definition pickInitialRoute :: "route list \<Rightarrow> string" where
  "pickInitialRoute rs =
     (case find isInitial rs of
        Some r \<Rightarrow> path r
      | None \<Rightarrow> (case rs of [] \<Rightarrow> ''/'' | r # _ \<Rightarrow> path r))"

definition createNavigationStructure :: "'f vista_detail list \<Rightarrow> navigation" where
  "createNavigationStructure vistas =
     (let rs = map (\<lambda>(v, index). mkRoute v index) (zip vistas [0 ..< length vistas])
      in \<lparr> routes = rs, initialRoute = pickInitialRoute rs \<rparr>)"

text \<open>
  The collaborators. \<open>moduleRef.get\<close> resolves a service or not (\<open>None\<close>: it returned
  nothing, or it threw, which reaches the same \<open>catch\<close>);
  \<open>vistaService.findAll\<close> returns a list, or \<open>null\<close>/\<open>undefined\<close> (\<open>None\<close>), or throws;
  \<open>figuraService.findAll\<close> likewise.
\<close>

type_synonym vista_service = "string \<Rightarrow> error + vista list option"
type_synonym 'f figura_finder = "string \<Rightarrow> error + 'f list option"

text \<open>One view with its figures: the inner \<open>try\<close>/\<open>catch\<close> keeps the view with no figures.\<close>

definition vistaDetail :: "'f figura_finder \<Rightarrow> vista \<Rightarrow> 'f vista_detail" where
  "vistaDetail figuraFindAll v =
     (case figuraFindAll (vista_id v) of
        Inr (Some fs) \<Rightarrow>
          \<lparr> vd_id = vista_id v, nombre = vista_nombre v, figuras = fs, proyecto = vista_proyecto v \<rparr>
      | Inr None \<Rightarrow>
          \<lparr> vd_id = vista_id v, nombre = vista_nombre v, figuras = [], proyecto = vista_proyecto v \<rparr>
      | Inl e \<Rightarrow>
          \<lparr> vd_id = vista_id v, nombre = vista_nombre v, figuras = [], proyecto = vista_proyecto v \<rparr>)"

text \<open>The body of the outer \<open>try\<close> block: \<open>Inl\<close> is an exception leaving it.\<close>

definition generateNavigation_try ::
  "vista_service option \<Rightarrow> 'f figura_finder option \<Rightarrow> string \<Rightarrow> error + navigation option" where
  "generateNavigation_try vistaService figuraService projectId =
     (case (vistaService, figuraService) of
        (Some vistaFindAll, Some figuraFindAll) \<Rightarrow>
          (case vistaFindAll projectId of
             Inl e \<Rightarrow> Inl e
           | Inr None \<Rightarrow> Inr None
           | Inr (Some vistas) \<Rightarrow>
               if length vistas < 2 then Inr None
               else Inr (Some (createNavigationStructure (map (vistaDetail figuraFindAll) vistas))))
      | _ \<Rightarrow> Inl DependencyUnavailable)"

text \<open>
  \<open>generateNavigationForProject\<close>: the \<open>catch\<close> of the outer block logs the error and
  returns \<open>null\<close>.
\<close>

definition generateNavigationForProject ::
  "vista_service option \<Rightarrow> 'f figura_finder option \<Rightarrow> string \<Rightarrow> error + navigation option" where
  "generateNavigationForProject vistaService figuraService projectId =
     (case generateNavigation_try vistaService figuraService projectId of
        Inl e \<Rightarrow> Inr None
      | Inr r \<Rightarrow> Inr r)"

section \<open>Batch persistence (\<open>OpenAIService.createFiguresFromUIElements\<close>)\<close>

text \<open>
  A UI element is a map from field names to values; \<open>{...element, vistaId}\<close> adds the view.
  \<open>figuraService.create\<close> works on the state \<open>'s\<close> of the persistence layer and returns the
  created record or throws. The log line after \<open>push\<close> is not modelled: what it can throw
  is caught by the same handler, after the record was pushed.
\<close>

type_synonym 'v ui_element = "string \<rightharpoonup> 'v"
type_synonym ('v, 'r, 's) figura_create = "'v ui_element \<Rightarrow> 's \<Rightarrow> (error + 'r) \<times> 's"

text \<open>The \<open>for\<close> loop with its \<open>try\<close>/\<open>catch\<close> around each element.\<close>

fun createLoop ::
  "('v, 'r, 's) figura_create \<Rightarrow> 'v \<Rightarrow> 'v ui_element list \<Rightarrow> 'r list \<Rightarrow> 's \<Rightarrow> 'r list \<times> 's" where
  "createLoop create vistaId [] createdFigures s = (createdFigures, s)"
| "createLoop create vistaId (element # rest) createdFigures s =
     (case create (element(''vistaId'' \<mapsto> vistaId)) s of
        (Inr createdFigure, s') \<Rightarrow> createLoop create vistaId rest (createdFigures @ [createdFigure]) s'
      | (Inl figureError, s') \<Rightarrow> createLoop create vistaId rest createdFigures s')"

definition createFiguresFromUIElements ::
  "('v, 'r, 's) figura_create option \<Rightarrow> 'v ui_element list \<Rightarrow> 'v \<Rightarrow> 's \<Rightarrow> (error + 'r list) \<times> 's" where
  "createFiguresFromUIElements figuraService uiElements vistaId s =
     (case figuraService of
        None \<Rightarrow> (Inl FiguraServiceUnavailable, s)
      | Some create \<Rightarrow>
          (case createLoop create vistaId uiElements [] s of
             (createdFigures, s') \<Rightarrow> (Inr createdFigures, s')))"

text \<open>
  What the batch is meant to do, told element by element: every element is submitted, in
  input order, to the state its predecessors left; the outcomes are collected.
\<close>

fun submit_all ::
  "('v, 'r, 's) figura_create \<Rightarrow> 'v \<Rightarrow> 'v ui_element list \<Rightarrow> 's \<Rightarrow> (error + 'r) list \<times> 's" where
  "submit_all create vistaId [] s = ([], s)"
| "submit_all create vistaId (element # rest) s =
     (case create (element(''vistaId'' \<mapsto> vistaId)) s of
        (outcome, s') \<Rightarrow>
          (case submit_all create vistaId rest s' of
             (outcomes, s'') \<Rightarrow> (outcome # outcomes, s'')))"

definition successes :: "(error + 'r) list \<Rightarrow> 'r list" where
  "successes outcomes = List.map_filter (\<lambda>x. case x of Inl e \<Rightarrow> None | Inr r \<Rightarrow> Some r) outcomes"

section \<open>Regular expressions\<close>

text \<open>
  The regular expressions of the source use literals, character classes, sequence,
  alternation, greedy and lazy repetition, one capturing group, look-ahead and the end
  anchor. \<open>rmatch r s\<close> lists every way \<open>r\<close> matches a prefix of \<open>s\<close>, as the pair of
  what is left of \<open>s\<close> and what the group captured, in the order in which a backtracking
  matcher tries them: the head of the list is the match JavaScript reports. A repetition
  does not go on after an iteration that consumed nothing. No expression of the source
  has its group under a repetition or inside a look-ahead, and none looks behind, so a
  match at a position depends only on the text from that position on.
\<close>

datatype rx =
    Lit string
  | Cls "char \<Rightarrow> bool"
  | Seq rx rx
  | Alt rx rx
  | Star rx
  | Lazy rx
  | Opt rx
  | Grp rx
  | Ahead rx
  | NotAhead rx
  | Eol

definition or_else :: "'a option \<Rightarrow> 'a option \<Rightarrow> 'a option" where
  "or_else a b = (case a of None \<Rightarrow> b | Some x \<Rightarrow> Some x)"

function rmatch :: "rx \<Rightarrow> string \<Rightarrow> (string \<times> string option) list" where
  "rmatch (Lit l) s = (if prefix l s then [(drop (length l) s, None)] else [])"
| "rmatch (Cls P) s = (case s of [] \<Rightarrow> [] | c # cs \<Rightarrow> if P c then [(cs, None)] else [])"
| "rmatch (Seq a b) s =
     concat (map (\<lambda>(s1, c1). map (\<lambda>(s2, c2). (s2, or_else c2 c1)) (rmatch b s1)) (rmatch a s))"
| "rmatch (Alt a b) s = rmatch a s @ rmatch b s"
| "rmatch (Star a) s =
     concat (map (\<lambda>(s1, c1). if length s1 < length s then rmatch (Star a) s1 else []) (rmatch a s))
     @ [(s, None)]"
| "rmatch (Lazy a) s =
     (s, None) #
     concat (map (\<lambda>(s1, c1). if length s1 < length s then rmatch (Lazy a) s1 else []) (rmatch a s))"
| "rmatch (Opt a) s = rmatch a s @ [(s, None)]"
| "rmatch (Grp a) s = map (\<lambda>(s1, c1). (s1, Some (take (length s - length s1) s))) (rmatch a s)"
| "rmatch (Ahead a) s = (if rmatch a s = [] then [] else [(s, None)])"
| "rmatch (NotAhead a) s = (if rmatch a s = [] then [(s, None)] else [])"
| "rmatch Eol s = (if s = [] then [(s, None)] else [])"
  by pat_completeness auto
termination
  by (relation "measures [\<lambda>(r, s). size r, \<lambda>(r, s). length s]") auto

definition Plus :: "rx \<Rightarrow> rx" where
  "Plus r = Seq r (Star r)"

fun seqs :: "rx list \<Rightarrow> rx" where
  "seqs [] = Lit []"
| "seqs [r] = r"
| "seqs (r # rs) = Seq r (seqs rs)"

fun alts :: "rx list \<Rightarrow> rx" where
  "alts [] = Cls (\<lambda>c. False)"
| "alts [r] = r"
| "alts (r # rs) = Alt r (alts rs)"

text \<open>
  \<open>rfind\<close>: the leftmost position where the expression matches, as (index, length of the
  match, group). \<open>match_first\<close> is \<open>text.match(r)\<close> without the \<open>g\<close> flag, \<open>matchAll\<close> is
  \<open>text.matchAll(r)\<close> (after an empty match the search moves on by one), \<open>remove_all\<close> is
  \<open>text.replace(r, '')\<close> with the \<open>g\<close> flag. Each yields (\<open>match[0]\<close>, \<open>match[1]\<close>).
\<close>

fun rfind :: "rx \<Rightarrow> string \<Rightarrow> (nat \<times> nat \<times> string option) option" where
  "rfind r [] =
     (case rmatch r [] of
        [] \<Rightarrow> None
      | (rest, g) # alternatives \<Rightarrow> Some (0, 0, g))"
| "rfind r (x # xs) =
     (case rmatch r (x # xs) of
        [] \<Rightarrow> map_option (\<lambda>(i, n, g). (Suc i, n, g)) (rfind r xs)
      | (rest, g) # alternatives \<Rightarrow> Some (0, length (x # xs) - length rest, g))"

definition match_first :: "rx \<Rightarrow> string \<Rightarrow> (string \<times> string option) option" where
  "match_first r s = map_option (\<lambda>(i, n, g). (take n (drop i s), g)) (rfind r s)"

function matchAll :: "rx \<Rightarrow> string \<Rightarrow> (string \<times> string option) list" where
  "matchAll r s =
     (case rfind r s of
        None \<Rightarrow> []
      | Some (i, n, g) \<Rightarrow>
          (take n (drop i s), g) #
          (if i + max n 1 \<le> length s then matchAll r (drop (i + max n 1) s) else []))"
  by pat_completeness auto
termination
  by (relation "measure (\<lambda>(r, s). length s)") auto

function remove_all :: "rx \<Rightarrow> string \<Rightarrow> string" where
  "remove_all r s =
     (case rfind r s of
        None \<Rightarrow> s
      | Some (i, n, g) \<Rightarrow>
          take i s @ (if n = 0 then take 1 (drop i s) else []) @
          (if i + max n 1 \<le> length s then remove_all r (drop (i + max n 1) s) else []))"
  by pat_completeness auto
termination
  by (relation "measure (\<lambda>(r, s). length s)") auto

text \<open>The classes \<open>\w\<close>, \<open>\s\<close> (and \<open>[\s\n]\<close>, the same set), \<open>[\s\S]\<close> and \<open>.\<close>.\<close>

definition is_word :: "char \<Rightarrow> bool" where
  "is_word c = (is_upper c \<or> is_lower c \<or> is_digit c \<or> c = CHR ''_'')"

definition is_line_end :: "char \<Rightarrow> bool" where
  "is_line_end c = ((of_char c :: nat) \<in> {10, 13})"

definition ws :: rx where "ws = Cls is_space"
definition word :: rx where "word = Cls is_word"
definition anyc :: rx where "anyc = Cls (\<lambda>c. True)"
definition dot :: rx where "dot = Cls (\<lambda>c. \<not> is_line_end c)"


section \<open>Code-block extraction (\<open>OpenAIService.extractFileBlocks\<close>)\<close>

definition is_name_char :: "char \<Rightarrow> bool" where
  "is_name_char c = (is_word c \<or> c = CHR ''-'')"

definition is_path_char :: "char \<Rightarrow> bool" where
  "is_path_char c = (is_word c \<or> c = CHR ''/'' \<or> c = CHR ''-'')"

text \<open>
  \<open>/```dart[\s\n]*\/\/[\s\n]*main\.dart[\s\S]*?```/\<close>, the explicit main entry, then the six
  patterns of the loop:
  \<^item> \<open>/```(?:dart)[\s\n]*\/\/[\s\n]*main\.dart[\s\S]*?```/g\<close> (no group),
  \<^item> \<open>/```dart[\s\n]*\/\/[\s\n]*([\w-]+_screen\.dart)[\s\S]*?```/g\<close>, and the same with
    \<open>_widget\<close>, \<open>_model\<close>, \<open>_service\<close>,
  \<^item> \<open>/```dart[\s\n]*\/\/[\s\n]*([\w\/-]+\.dart)[\s\S]*?```/g\<close>,
  and \<open>/```dart[\s\S]*?```/g\<close> for the generic scan.
\<close>

definition mainAppPattern :: rx where
  "mainAppPattern =
     seqs [Lit ''```dart'', Star ws, Lit ''//'', Star ws, Lit ''main.dart'', Lazy anyc, Lit ''```'']"

definition patterns :: "rx list" where
  "patterns =
     [seqs [Lit ''```'', Lit ''dart'', Star ws, Lit ''//'', Star ws, Lit ''main.dart'',
            Lazy anyc, Lit ''```''],
      seqs [Lit ''```dart'', Star ws, Lit ''//'', Star ws,
            Grp (seqs [Plus (Cls is_name_char), Lit ''_screen.dart'']), Lazy anyc, Lit ''```''],
      seqs [Lit ''```dart'', Star ws, Lit ''//'', Star ws,
            Grp (seqs [Plus (Cls is_name_char), Lit ''_widget.dart'']), Lazy anyc, Lit ''```''],
      seqs [Lit ''```dart'', Star ws, Lit ''//'', Star ws,
            Grp (seqs [Plus (Cls is_name_char), Lit ''_model.dart'']), Lazy anyc, Lit ''```''],
      seqs [Lit ''```dart'', Star ws, Lit ''//'', Star ws,
            Grp (seqs [Plus (Cls is_name_char), Lit ''_service.dart'']), Lazy anyc, Lit ''```''],
      seqs [Lit ''```dart'', Star ws, Lit ''//'', Star ws,
            Grp (seqs [Plus (Cls is_path_char), Lit ''.dart'']), Lazy anyc, Lit ''```'']]"

definition dartBlockPattern :: rx where
  "dartBlockPattern = seqs [Lit ''```dart'', Lazy anyc, Lit ''```'']"

text \<open>
  \<open>extractCodeContent\<close>: \<open>.replace(/```dart[\s\n]*\/\/[\s\n]*.*[\s\n]*/g, '')\<close>, then
  \<open>.replace(/```dart[\s\n]*/g, '')\<close>, then \<open>.replace(/```$/g, '')\<close>, then \<open>.trim()\<close>.
\<close>

definition extractCodeContent :: "string \<Rightarrow> string" where
  "extractCodeContent codeBlock =
     trim
      (remove_all (seqs [Lit ''```'', Eol])
        (remove_all (seqs [Lit ''```dart'', Star ws])
          (remove_all (seqs [Lit ''```dart'', Star ws, Lit ''//'', Star ws, Star dot, Star ws])
            codeBlock)))"

text \<open>The index of a template literal, in decimal.\<close>

function show_nat :: "nat \<Rightarrow> string" where
  "show_nat n =
     (if n < 10 then [char_of (48 + n)] else show_nat (n div 10) @ [char_of (48 + n mod 10)])"
  by pat_completeness auto
termination
  by (relation "measure id") auto

definition inferFileNameFromContent :: "string \<Rightarrow> nat \<Rightarrow> string" where
  "inferFileNameFromContent content index =
     (if str_includes content ''void main()'' \<or> str_includes content ''runApp('' then ''main.dart''
      else if str_includes content ''StatefulWidget'' \<or> str_includes content ''StatelessWidget'' then
        (if str_includes content ''Screen'' \<or> str_includes content ''Page''
         then ''screen_'' @ show_nat index @ ''.dart''
         else ''widget_'' @ show_nat index @ ''.dart'')
      else if str_includes content ''class'' \<and> str_includes content ''extends'' = False
        then ''model_'' @ show_nat index @ ''.dart''
      else if str_includes content ''service'' \<or> str_includes content ''Service''
              \<or> str_includes content ''Repository''
        then ''service_'' @ show_nat index @ ''.dart''
      else ''file_'' @ show_nat index @ ''.dart'')"

text \<open>
  A \<open>Map<string, string>\<close> is an association list in insertion order: \<open>set\<close> on a key that
  is present replaces its value in place, on a new key it appends (\<^const>\<open>AList.update\<close>).
\<close>

type_synonym blocks = "(string \<times> string) list"

definition has :: "blocks \<Rightarrow> string \<Rightarrow> bool" where
  "has blocks k = (map_of blocks k \<noteq> None)"

text \<open>
  The inner loop over the matches of one pattern. \<open>skipMain\<close> is \<open>i === 0 && mainAppMatch\<close>.
\<close>

fun scanMatches :: "bool \<Rightarrow> (string \<times> string option) list \<Rightarrow> blocks \<Rightarrow> blocks" where
  "scanMatches skipMain [] blocks = blocks"
| "scanMatches skipMain ((m, g) # rest) blocks =
     (if m = [] then scanMatches skipMain rest blocks
      else if skipMain then scanMatches skipMain rest blocks
      else (case g of
              None \<Rightarrow> scanMatches skipMain rest blocks
            | Some captured \<Rightarrow>
                (let fileName = trim captured in
                 if fileName = [] then scanMatches skipMain rest blocks
                 else if fileName = ''main.dart'' \<and> has blocks ''main.dart''
                   then scanMatches skipMain rest blocks
                 else scanMatches skipMain rest
                        (AList.update fileName (extractCodeContent m) blocks))))"

fun scanPatterns :: "bool \<Rightarrow> string \<Rightarrow> nat list \<Rightarrow> blocks \<Rightarrow> blocks" where
  "scanPatterns mainFound text [] blocks = blocks"
| "scanPatterns mainFound text (i # is) blocks =
     scanPatterns mainFound text is
       (scanMatches (i = 0 \<and> mainFound) (matchAll (patterns ! i) text) blocks)"

fun genericBlocks :: "string list \<Rightarrow> nat \<Rightarrow> blocks \<Rightarrow> blocks" where
  "genericBlocks [] i blocks = blocks"
| "genericBlocks (dartBlock # rest) i blocks =
     (let dartContent = extractCodeContent dartBlock;
          fileName = inferFileNameFromContent dartContent i
      in genericBlocks rest (Suc i) (AList.update fileName dartContent blocks))"

text \<open>
  \<open>conventionBlocks\<close> is the map when the loop over the patterns ends (the blocks found by
  filename convention); \<open>extractFileBlocks\<close> adds the generic scan when it is empty.
\<close>

definition conventionBlocks :: "string \<Rightarrow> blocks" where
  "conventionBlocks text =
     (case match_first mainAppPattern text of
        Some (m, g) \<Rightarrow>
          scanPatterns True text [1 ..< length patterns] [(''main.dart'', extractCodeContent m)]
      | None \<Rightarrow> scanPatterns False text [0 ..< length patterns] [])"

definition extractFileBlocks :: "string \<Rightarrow> blocks" where
  "extractFileBlocks text =
     (let blocks = conventionBlocks text in
      if length blocks = 0 then genericBlocks (map fst (matchAll dartBlockPattern text)) 0 []
      else blocks)"

section \<open>Classification (\<open>OpenAIService.processCodeBlocks\<close>)\<close>

text \<open>
  \<open>FlutterScreen\<close>, \<open>FlutterModel\<close> and \<open>FlutterService\<close> are \<open>{name, code}\<close>; \<open>FlutterWidget\<close> is
  \<open>{name, dartCode}\<close>, modelled with the same record. \<open>mainApp\<close> is the code of \<open>MainApp\<close>, or
  \<open>None\<close> for \<open>undefined\<close>.
\<close>

record artifact =
  name :: string
  code :: string

record processed_response =
  screens :: "artifact list"
  widgets :: "artifact list"
  models :: "artifact list"
  services :: "artifact list"
  mainApp :: "string option"

definition emptyResponse :: processed_response where
  "emptyResponse = \<lparr> screens = [], widgets = [], models = [], services = [], mainApp = None \<rparr>"

text \<open>\<open>fileName.replace('.dart', '')\<close> names the artifact.\<close>

definition mk :: "string \<Rightarrow> string \<Rightarrow> artifact" where
  "mk fileName codeContent = \<lparr> name = replace_first ''.dart'' [] fileName, code = codeContent \<rparr>"

definition classifyBlock :: "string \<Rightarrow> string \<Rightarrow> processed_response \<Rightarrow> processed_response" where
  "classifyBlock fileName codeContent b =
     (if str_includes fileName ''_screen'' \<or> str_includes fileName ''page''
        then b\<lparr> screens := screens b @ [mk fileName codeContent] \<rparr>
      else if str_includes fileName ''_widget''
              \<or> (str_includes fileName ''widget'' \<and> \<not> str_includes fileName ''screen'')
        then b\<lparr> widgets := widgets b @ [mk fileName codeContent] \<rparr>
      else if str_includes fileName ''_model'' \<or> str_includes fileName ''model''
        then b\<lparr> models := models b @ [mk fileName codeContent] \<rparr>
      else if str_includes fileName ''_service'' \<or> str_includes fileName ''service''
              \<or> str_includes fileName ''provider''
        then b\<lparr> services := services b @ [mk fileName codeContent] \<rparr>
      else if str_includes codeContent ''StatefulWidget'' \<or> str_includes codeContent ''StatelessWidget''
        then (if str_includes codeContent ''Screen'' \<or> str_includes codeContent ''Page''
              then b\<lparr> screens := screens b @ [mk fileName codeContent] \<rparr>
              else b\<lparr> widgets := widgets b @ [mk fileName codeContent] \<rparr>)
      else if str_includes codeContent ''class'' \<and> \<not> str_includes codeContent ''extends''
        then b\<lparr> models := models b @ [mk fileName codeContent] \<rparr>
      else if str_includes codeContent ''Service'' \<or> str_includes codeContent ''Provider''
              \<or> str_includes codeContent ''Repository''
        then b\<lparr> services := services b @ [mk fileName codeContent] \<rparr>
      else b)"

fun processLoop :: "blocks \<Rightarrow> string list \<Rightarrow> processed_response \<Rightarrow> processed_response" where
  "processLoop [] processedFiles b = b"
| "processLoop ((fileName, codeContent) # rest) processedFiles b =
     (if fileName \<in> set processedFiles then processLoop rest processedFiles b
      else if fileName = ''main.dart'' then processLoop rest processedFiles b
      else processLoop rest (fileName # processedFiles) (classifyBlock fileName codeContent b))"

definition processCodeBlocks :: "blocks \<Rightarrow> processed_response" where
  "processCodeBlocks codeBlocks =
     (case map_of codeBlocks ''main.dart'' of
        None \<Rightarrow> processLoop codeBlocks [] emptyResponse
      | Some mainAppCode \<Rightarrow>
          if mainAppCode \<noteq> []
          then processLoop codeBlocks [''main.dart''] (emptyResponse\<lparr> mainApp := Some mainAppCode \<rparr>)
          else processLoop codeBlocks [] emptyResponse)"

section \<open>Entry-point synthesis (\<open>OpenAIService.generateMainApp\<close>)\<close>

text \<open>\<open>xs.join(sep)\<close>, and the two case conversions of this service.\<close>

definition join :: "string \<Rightarrow> string list \<Rightarrow> string" where
  "join sep xs = (case xs of [] \<Rightarrow> [] | x # rest \<Rightarrow> x @ concat (map (\<lambda>y. sep @ y) rest))"

definition toSnakeCase :: "string \<Rightarrow> string" where
  "toSnakeCase s = drop_leading_underscore (toLowerCase (underscore_capitals s))"

definition toPascalCase :: "string \<Rightarrow> string" where
  "toPascalCase s =
     (if s = [] then []
      else join [] (map (\<lambda>w. toUpperCase (take 1 w) @ drop 1 w) (split_on CHR ''_'' s)))"

text \<open>
  The template literals, line by line: the placeholder widget before and after
  \<open>${responseText.substring(0, 500)}\<close>, and the bootstrap before \<open>${homeScreenImport}\<close>,
  between it and \<open>${homeScreenWidget}\<close>, and after.
\<close>

definition errorWidgetHead :: "string list" where
  \<open>errorWidgetHead =
     ['''',
      ''        import 'package:flutter/material.dart';'',
      ''        '',
      ''        class ErrorWidget extends StatelessWidget {'',
      ''          const ErrorWidget({Key? key}) : super(key: key);'',
      ''          '',
      ''          @override'',
      ''          Widget build(BuildContext context) {'',
      ''            return Scaffold('',
      ''              appBar: AppBar('',
      ''                title: const Text('Error de Generaci'' @ [CHR 0xF3] @ ''n'),'',
      ''              ),'',
      ''              body: Padding('',
      ''                padding: const EdgeInsets.all(16.0),'',
      ''                child: Column('',
      ''                  crossAxisAlignment: CrossAxisAlignment.start,'',
      ''                  children: ['',
      ''                    const Text('',
      ''                      'Error al generar c'' @ [CHR 0xF3] @ ''digo','',
      ''                      style: TextStyle(fontSize: 20, fontWeight: FontWeight.bold),'',
      ''                    ),'',
      ''                    const SizedBox(height: 16),'',
      ''                    const Text('',
      ''                      'No se pudo procesar la respuesta de la IA. Por favor intenta con otra captura o contacta al soporte.','',
      ''                    ),'',
      ''                    const SizedBox(height: 16),'',
      ''                    Container('',
      ''                      padding: const EdgeInsets.all(8),'',
      ''                      color: Colors.grey[200],'',
      ''                      child: Text('',
      ''                        '' @ [CHR 0x27]]\<close>

definition errorWidgetTail :: "string list" where
  \<open>errorWidgetTail =
     [''...','',
      ''                        style: const TextStyle(fontFamily: 'monospace', fontSize: 12),'',
      ''                      ),'',
      ''                    )'',
      ''                  ],'',
      ''                ),'',
      ''              ),'',
      ''            );'',
      ''          }'',
      ''        }'',
      ''      '']\<close>

definition mainAppHead :: "string list" where
  \<open>mainAppHead =
     [''import 'package:flutter/material.dart';'',
      '''']\<close>

definition mainAppMiddle :: "string list" where
  \<open>mainAppMiddle =
     ['''',
      '''',
      ''void main() {'',
      ''  runApp(const MyApp());'',
      ''}'',
      '''',
      ''class MyApp extends StatelessWidget {'',
      ''  const MyApp({Key? key}) : super(key: key);'',
      '''',
      ''  @override'',
      ''  Widget build(BuildContext context) {'',
      ''    return MaterialApp('',
      ''      title: 'Flutter Demo','',
      ''      theme: ThemeData('',
      ''        primarySwatch: Colors.blue,'',
      ''        visualDensity: VisualDensity.adaptivePlatformDensity,'',
      ''      ),'',
      ''      home: '']\<close>

definition mainAppTail :: "string list" where
  \<open>mainAppTail =
     ['','',
      ''    );'',
      ''  }'',
      ''}'']\<close>



definition placeholderHome :: string where
  \<open>placeholderHome = ''const Center(child: Text("Pantalla principal"))''\<close>

definition generateMainApp :: "processed_response \<Rightarrow> string" where
  "generateMainApp result =
     (let (homeScreenImport, homeScreenWidget) =
            (case screens result of
               [] \<Rightarrow> ([], placeholderHome)
             | homeScreen # others \<Rightarrow>
                 (''import '' @ [CHR 0x27] @ toSnakeCase (name homeScreen) @ ''.dart'' @ [CHR 0x27] @ '';'',
                  toPascalCase (name homeScreen) @ ''()''))
      in join ''\<newline>'' mainAppHead @ homeScreenImport @ join ''\<newline>'' mainAppMiddle
         @ homeScreenWidget @ join ''\<newline>'' mainAppTail)"

section \<open>The fallback extractor (\<open>OpenAIService.extractWithExtendedPatterns\<close>)\<close>

text \<open>
  \<^item> \<open>/```dart[\s\S]*?void\s+main[\s\S]*?runApp[\s\S]*?```/\<close>
  \<^item> \<open>/class\s+(\w+)\s+extends\s+StatelessWidget[\s\S]*?(?=```|class\s+\w+\s+extends)/g\<close>,
    and the same with \<open>StatefulWidget\<close>
  \<^item> \<open>/class\s+(\w+)(?!\s+extends)[\s\S]*?(?=```|class\s+\w+)/g\<close>
  \<^item> \<open>/class\s+(\w+(?:Service|Provider|Repository|Client|Api))[\s\S]*?(?=```|class\s+\w+)/g\<close>
\<close>

definition fallbackMainPattern :: rx where
  "fallbackMainPattern =
     seqs [Lit ''```dart'', Lazy anyc, Lit ''void'', Plus ws, Lit ''main'', Lazy anyc,
           Lit ''runApp'', Lazy anyc, Lit ''```'']"

definition nextClassExtends :: rx where
  "nextClassExtends =
     Alt (Lit ''```'') (seqs [Lit ''class'', Plus ws, Plus word, Plus ws, Lit ''extends''])"

definition nextClass :: rx where
  "nextClass = Alt (Lit ''```'') (seqs [Lit ''class'', Plus ws, Plus word])"

definition statelessPattern :: rx where
  "statelessPattern =
     seqs [Lit ''class'', Plus ws, Grp (Plus word), Plus ws, Lit ''extends'', Plus ws,
           Lit ''StatelessWidget'', Lazy anyc, Ahead nextClassExtends]"

definition statefulPattern :: rx where
  "statefulPattern =
     seqs [Lit ''class'', Plus ws, Grp (Plus word), Plus ws, Lit ''extends'', Plus ws,
           Lit ''StatefulWidget'', Lazy anyc, Ahead nextClassExtends]"

definition modelPattern :: rx where
  "modelPattern =
     seqs [Lit ''class'', Plus ws, Grp (Plus word), NotAhead (seqs [Plus ws, Lit ''extends'']),
           Lazy anyc, Ahead nextClass]"

definition servicePattern :: rx where
  "servicePattern =
     seqs [Lit ''class'', Plus ws,
           Grp (seqs [Plus word,
                      alts [Lit ''Service'', Lit ''Provider'', Lit ''Repository'', Lit ''Client'',
                            Lit ''Api'']]),
           Lazy anyc, Ahead nextClass]"

text \<open>\<open>findAllMatches\<close> keeps the matches with \<open>match[0] && match[1]\<close>.\<close>

definition findAllMatches :: "string \<Rightarrow> rx \<Rightarrow> (string \<times> string) list" where
  "findAllMatches text pattern =
     concat (map (\<lambda>(m, g). case g of
                               None \<Rightarrow> []
                             | Some g1 \<Rightarrow> if m \<noteq> [] \<and> g1 \<noteq> [] then [(m, g1)] else [])
                 (matchAll pattern text))"

fun indexOf :: "string \<Rightarrow> string \<Rightarrow> nat option" where
  "indexOf [] p = (if p = [] then Some 0 else None)"
| "indexOf (c # cs) p = (if prefix p (c # cs) then Some 0 else map_option Suc (indexOf cs p))"

text \<open>
  \<open>extractRelevantCode\<close>: the first match of \<open>```(?:language)?[\s\S]*?```\<close>, else the text from
  \<open>'import '\<close> on, else the text.
\<close>

definition extractRelevantCode :: "string \<Rightarrow> string \<Rightarrow> string" where
  "extractRelevantCode text language =
     (case match_first (seqs [Lit ''```'', Opt (Lit language), Lazy anyc, Lit ''```'']) text of
        Some (m, g) \<Rightarrow> extractCodeContent m
      | None \<Rightarrow>
          (case indexOf text ''import '' of
             Some codeStart \<Rightarrow> drop codeStart text
           | None \<Rightarrow> text))"

fun widgetsAndScreensLoop :: "(string \<times> string) list \<Rightarrow> processed_response \<Rightarrow> processed_response" where
  "widgetsAndScreensLoop [] b = b"
| "widgetsAndScreensLoop ((blockText, className) # rest) b =
     (if str_includes className ''Screen'' \<or> str_includes className ''Page''
      then widgetsAndScreensLoop rest
             (b\<lparr> screens := screens b @
                    [\<lparr> name = toSnakeCase className, code = extractRelevantCode blockText ''dart'' \<rparr>] \<rparr>)
      else widgetsAndScreensLoop rest
             (b\<lparr> widgets := widgets b @
                    [\<lparr> name = toSnakeCase className, code = extractRelevantCode blockText ''dart'' \<rparr>] \<rparr>))"

definition extractWidgetsAndScreens :: "string \<Rightarrow> processed_response \<Rightarrow> processed_response" where
  "extractWidgetsAndScreens text b =
     widgetsAndScreensLoop (findAllMatches text statelessPattern @ findAllMatches text statefulPattern) b"

fun modelsLoop :: "(string \<times> string) list \<Rightarrow> processed_response \<Rightarrow> processed_response" where
  "modelsLoop [] b = b"
| "modelsLoop ((blockText, className) # rest) b =
     (if str_includes blockText ''final'' \<or> str_includes blockText ''const''
         \<or> str_includes blockText ''constructor''
      then modelsLoop rest
             (b\<lparr> models := models b @
                    [\<lparr> name = toSnakeCase className, code = extractRelevantCode blockText ''dart'' \<rparr>] \<rparr>)
      else modelsLoop rest b)"

definition extractModels :: "string \<Rightarrow> processed_response \<Rightarrow> processed_response" where
  "extractModels text b = modelsLoop (findAllMatches text modelPattern) b"

fun servicesLoop :: "(string \<times> string) list \<Rightarrow> processed_response \<Rightarrow> processed_response" where
  "servicesLoop [] b = b"
| "servicesLoop ((blockText, className) # rest) b =
     servicesLoop rest
       (b\<lparr> services := services b @
              [\<lparr> name = toSnakeCase className, code = extractRelevantCode blockText ''dart'' \<rparr>] \<rparr>)"

definition extractServices :: "string \<Rightarrow> processed_response \<Rightarrow> processed_response" where
  "extractServices text b = servicesLoop (findAllMatches text servicePattern) b"

text \<open>The placeholder of \<open>createErrorWidget\<close>.\<close>

definition errorWidget :: "string \<Rightarrow> artifact" where
  "errorWidget responseText =
     \<lparr> name = ''error_widget'',
       code = join ''\<newline>'' errorWidgetHead @ take 500 responseText @ join ''\<newline>'' errorWidgetTail \<rparr>"

definition createErrorWidget :: "processed_response \<Rightarrow> string \<Rightarrow> processed_response" where
  "createErrorWidget b responseText = b\<lparr> widgets := widgets b @ [errorWidget responseText] \<rparr>"

text \<open>Steps 1 to 4 of \<open>extractWithExtendedPatterns\<close>, then steps 5 and 6.\<close>

definition fallbackScans :: "string \<Rightarrow> processed_response" where
  "fallbackScans responseText =
     extractServices responseText
       (extractModels responseText
         (extractWidgetsAndScreens responseText
           (emptyResponse\<lparr> mainApp := map_option (\<lambda>(m, g). extractCodeContent m)
                                          (match_first fallbackMainPattern responseText) \<rparr>)))"

definition extractWithExtendedPatterns :: "string \<Rightarrow> processed_response" where
  "extractWithExtendedPatterns responseText =
     (let found = fallbackScans responseText;
          result = (if length (screens found) = 0 \<and> length (widgets found) = 0
                       \<and> length (models found) = 0 \<and> length (services found) = 0
                    then createErrorWidget found responseText else found)
      in if mainApp result = None then result\<lparr> mainApp := Some (generateMainApp result) \<rparr>
         else result)"

section \<open>The pipeline (\<open>OpenAIService.processCode\<close>)\<close>

text \<open>
  \<open>needsFallback\<close> is the test of step 3. Nothing in the \<open>try\<close> block of the model can throw,
  so its \<open>catch\<close> is not reached.
\<close>

definition needsFallback :: "processed_response \<Rightarrow> bool" where
  "needsFallback b =
     (length (screens b) = 0 \<and> length (widgets b) = 0 \<and> length (models b) = 0
      \<and> length (services b) = 0 \<and> mainApp b = None)"

definition processCode :: "string \<Rightarrow> processed_response" where
  "processCode responseText =
     (let processedResult = processCodeBlocks (extractFileBlocks responseText) in
      if needsFallback processedResult then extractWithExtendedPatterns responseText
      else if mainApp processedResult = None
        then processedResult\<lparr> mainApp := Some (generateMainApp processedResult) \<rparr>
      else processedResult)"


section \<open>Inputs used below\<close>

definition settings_home :: "vista list" where
  "settings_home =
     [\<lparr> vista_id = ''v1'', vista_nombre = ''Settings'', vista_proyecto = None \<rparr>,
      \<lparr> vista_id = ''v2'', vista_nombre = ''Home'', vista_proyecto = None \<rparr>]"

definition one_view :: "vista list" where
  "one_view = [\<lparr> vista_id = ''v1'', vista_nombre = ''Login'', vista_proyecto = None \<rparr>]"

definition fixed_views :: "vista list \<Rightarrow> vista_service" where
  "fixed_views vs projectId = Inr (Some vs)"

definition no_figures :: "unit figura_finder" where
  "no_figures vistaId = Inr (Some [])"

text \<open>Two fenced blocks headed by the same filename comment, with contents A and B.\<close>

definition two_screens :: string where
  "two_screens =
     ''```dart\<newline>// a_screen.dart\<newline>A\<newline>```\<newline>```dart\<newline>// a_screen.dart\<newline>B\<newline>```''"

text \<open>Two fenced blocks headed by \<open>// main.dart\<close>, with contents A and B.\<close>

definition two_mains :: string where
  "two_mains =
     ''```dart\<newline>// main.dart\<newline>A\<newline>```\<newline>```dart\<newline>// main.dart\<newline>B\<newline>```''"

text \<open>No fence with a filename comment; two class definitions of the same name.\<close>

definition twice_a :: string where
  "twice_a = ''class A extends StatelessWidget x class A extends StatelessWidget y ```''"

text \<open>One fenced block without a filename comment.\<close>

definition plain_widget :: string where
  "plain_widget = ''```dart\<newline>class Foo extends StatelessWidget {}\<newline>```''"



section \<open>Notions used in the statements and proofs\<close>

text \<open>Whether a regular expression has a capturing group.\<close>

fun has_grp :: "rx \<Rightarrow> bool" where
  "has_grp (Lit l) = False"
| "has_grp (Cls P) = False"
| "has_grp (Seq a b) = (has_grp a \<or> has_grp b)"
| "has_grp (Alt a b) = (has_grp a \<or> has_grp b)"
| "has_grp (Star a) = has_grp a"
| "has_grp (Lazy a) = has_grp a"
| "has_grp (Opt a) = has_grp a"
| "has_grp (Grp a) = True"
| "has_grp (Ahead a) = False"
| "has_grp (NotAhead a) = False"
| "has_grp Eol = False"

text \<open>
  A dart file name: characters of \<open>[\w\/-]\<close> followed by \<open>.dart\<close>. A map of blocks is well
  named when its keys are distinct dart file names.
\<close>

definition dart_name :: "string \<Rightarrow> bool" where
  "dart_name k = (\<exists>x. k = x @ ''.dart'' \<and> (\<forall>ch\<in>set x. is_path_char ch))"

definition well_named :: "blocks \<Rightarrow> bool" where
  "well_named blocks = (distinct (map fst blocks) \<and> (\<forall>k\<in>set (map fst blocks). dart_name k))"

text \<open>The number of screens, widgets, models and services of a bundle.\<close>

definition classified :: "processed_response \<Rightarrow> nat" where
  "classified b = length (screens b) + length (widgets b) + length (models b) + length (services b)"

text \<open>A data URI whose payload has a comma.\<close>

definition svg_uri :: string where
  "svg_uri = ''data:image/svg+xml,<text>a,b</text>''"

text \<open>A persistence layer that numbers the records it creates and refuses elements with no \<open>tipo\<close>.\<close>

definition counting_create :: "(string, nat, nat) figura_create" where
  "counting_create element n =
     (case element ''tipo'' of
        None \<Rightarrow> (Inl (CollaboratorError ''tipo''), n)
      | Some t \<Rightarrow> (Inr n, Suc n))"


section \<open>Image preparation: properties\<close>


lemma split_on_no: "c \<notin> set s \<Longrightarrow> split_on c s = [s]"
  by (induction s) auto










text \<open>
  Outside the inputs the operation is specified for: a string that starts with
  \<open>data:image\<close> and whose payload has a comma of its own is cut at that comma.
\<close>

lemma payload_comma_cut:
  "startsWith svg_uri ''data:image''
   \<and> prepareImageBase64 (Str svg_uri) = Inr (JStr ''<text>a'')
   \<and> after_first_comma svg_uri = ''<text>a,b</text>''"
  by code_simp

text \<open>
  C10: for every string that starts with \<open>data:image\<close> and has no comma, image preparation
  returns \<open>undefined\<close>: no error is raised and no string is returned.
\<close>

theorem data_uri_without_comma_undefined:
  "startsWith s ''data:image'' \<Longrightarrow> CHR '','' \<notin> set s \<Longrightarrow>
   prepareImageBase64 (Str s) = Inr JUndefined"
  by (simp add: js_index_def split_on_no)

theorem data_uri_without_comma_undefined_witness:
  "startsWith ''data:image/png;base64'' ''data:image''
   \<and> CHR '','' \<notin> set ''data:image/png;base64''
   \<and> prepareImageBase64 (Str ''data:image/png;base64'') = Inr JUndefined"
proof -
  have h1: "startsWith ''data:image/png;base64'' ''data:image''" by code_simp
  have h2: "CHR '','' \<notin> set ''data:image/png;base64''" by simp
  show ?thesis using data_uri_without_comma_undefined [OF h1 h2] h1 h2 by simp
qed

section \<open>Navigation synthesis: properties\<close>

lemma first_view_always_initial: "determineIfInitial v 0"
  by (simp add: determineIfInitial_def)

lemma initial_route_is_first_view:
  "initialRoute (createNavigationStructure (v # vs)) = ''/'' @ navToSnakeCase (nombre v)"
  by (simp add: createNavigationStructure_def Let_def pickInitialRoute_def upt_conv_Cons
        mkRoute_def first_view_always_initial del: upt_Suc)

text \<open>
  C1 (the code departs from it): with the views Settings and Home, fetched in that order,
  both routes are marked initial and the initial route is \<open>/settings\<close>. The keyword \<open>home\<close>
  does not beat the position: \<open>determineIfInitial\<close> decides view by view, and the view at
  index 0 is initial whatever the other names are.
\<close>

theorem keyword_does_not_beat_position:
  "generateNavigationForProject (Some (fixed_views settings_home)) (Some no_figures) ''p1'' =
     Inr (Some \<lparr> routes =
       [\<lparr> route_name = ''settings'', screenName = ''SettingsScreen'', path = ''/settings'',
          isInitial = True, description = ''Settings'', figuraCount = 0 \<rparr>,
        \<lparr> route_name = ''home'', screenName = ''HomeScreen'', path = ''/home'',
          isInitial = True, description = ''Home'', figuraCount = 0 \<rparr>],
       initialRoute = ''/settings'' \<rparr>)"
  by code_simp

text \<open>
  C5, as stated, fails: with no collaborator resolved the operation returns \<open>null\<close>, the
  value it returns for a project with fewer than two views; no error reaches the caller.
\<close>

theorem missing_collaborator_returns_null:
  "generateNavigationForProject None (None :: unit figura_finder option) ''p1'' = Inr None
   \<and> generateNavigationForProject None (None :: unit figura_finder option) ''p1''
       \<noteq> Inl DependencyUnavailable"
  by (simp add: generateNavigationForProject_def generateNavigation_try_def)

text \<open>
  C5, amended: if either collaborator cannot be resolved, the \<open>try\<close> block of navigation
  generation fails at once with the dependency-unavailable error, before any view is
  fetched; the \<open>catch\<close> of the operation logs it, and the operation returns \<open>null\<close> to its
  caller.
\<close>

theorem missing_collaborator_caught:
  "vistaService = None \<or> figuraService = None \<Longrightarrow>
   generateNavigation_try vistaService figuraService projectId = Inl DependencyUnavailable
   \<and> generateNavigationForProject vistaService figuraService projectId = Inr None"
  by (auto simp: generateNavigationForProject_def generateNavigation_try_def split: option.splits)

theorem missing_collaborator_caught_witness:
  "(Some (fixed_views settings_home) = None \<or> (None :: unit figura_finder option) = None)
   \<and> generateNavigation_try (Some (fixed_views settings_home))
         (None :: unit figura_finder option) ''p1'' = Inl DependencyUnavailable
   \<and> generateNavigationForProject (Some (fixed_views settings_home))
         (None :: unit figura_finder option) ''p1'' = Inr None"
  using missing_collaborator_caught
          [of "Some (fixed_views settings_home)" "None :: unit figura_finder option" "''p1''"]
  by simp

text \<open>
  C6: when the views fetched for a project are fewer than two (none, one, or no list at
  all), navigation synthesis returns \<open>null\<close>: no error and no bundle.
\<close>

theorem few_views_no_navigation:
  assumes "vistaFindAll projectId = Inr fetched"
    and "fetched = None \<or> (\<exists>vistas. fetched = Some vistas \<and> length vistas < 2)"
  shows "generateNavigationForProject (Some vistaFindAll) figuraService projectId = Inr None"
  using assms
  by (auto simp: generateNavigationForProject_def generateNavigation_try_def split: option.splits)

theorem few_views_no_navigation_witness:
  "fixed_views one_view ''p1'' = Inr (Some one_view)
   \<and> (Some one_view = None \<or> (\<exists>vistas. Some one_view = Some vistas \<and> length vistas < 2))
   \<and> generateNavigationForProject (Some (fixed_views one_view)) (Some no_figures) ''p1'' = Inr None"
proof -
  have a: "fixed_views one_view ''p1'' = Inr (Some one_view)" by (simp add: fixed_views_def)
  have b: "Some one_view = None \<or> (\<exists>vistas. Some one_view = Some vistas \<and> length vistas < 2)"
    by (simp add: one_view_def)
  show ?thesis
    using a b
      few_views_no_navigation [of "fixed_views one_view" "''p1''" "Some one_view" "Some no_figures"]
    by simp
qed

section \<open>Batch persistence: properties\<close>

lemma createLoop_acc:
  "createLoop create v es acc s =
     (acc @ successes (fst (submit_all create v es s)), snd (submit_all create v es s))"
proof (induction es arbitrary: acc s)
  case Nil
  then show ?case by (simp add: successes_def List.map_filter_simps)
next
  case (Cons e es)
  then show ?case
    by (auto simp: successes_def List.map_filter_simps split: prod.splits sum.splits)
qed

lemma submit_all_length: "length (fst (submit_all create v es s)) = length es"
proof (induction es arbitrary: s)
  case Nil
  then show ?case by simp
next
  case (Cons e es)
  obtain outcome s' where c: "create (e(''vistaId'' \<mapsto> v)) s = (outcome, s')"
    by (cases "create (e(''vistaId'' \<mapsto> v)) s")
  show ?case using c Cons.IH [of s'] by (auto split: prod.splits)
qed

text \<open>
  C9: with the figure service resolved, every element of the batch is submitted, in input
  order, whatever the outcome of the others; the records returned are those of the
  elements whose creation succeeded, in input order, and the persistence layer is left in
  the state that submitting every element leads to.
\<close>

theorem batch_skips_failures:
  "createFiguresFromUIElements (Some create) uiElements vistaId s =
     (Inr (successes (fst (submit_all create vistaId uiElements s))),
      snd (submit_all create vistaId uiElements s))
   \<and> length (fst (submit_all create vistaId uiElements s)) = length uiElements"
  by (simp add: createFiguresFromUIElements_def createLoop_acc submit_all_length)

lemma batch_example:
  "createFiguresFromUIElements (Some counting_create)
     [[''tipo'' \<mapsto> ''text''], Map.empty, [''tipo'' \<mapsto> ''circle'']] ''v1'' 0 =
     (Inr [0, 1], 2)"
  by (simp add: createFiguresFromUIElements_def counting_create_def)


section \<open>Regular expressions: what a group can capture\<close>

declare rmatch.simps [simp del]
declare matchAll.simps [simp del]
declare remove_all.simps [simp del]
declare show_nat.simps [simp del]

lemma rmatch_suffix: "(s', c) \<in> set (rmatch r s) \<Longrightarrow> \<exists>w. s = w @ s'"
proof (induction r s arbitrary: s' c rule: rmatch.induct)
  case (1 l s)
  then show ?case by (auto simp: rmatch.simps prefix_def split: if_splits)
next
  case (2 P s)
  then show ?case by (auto simp: rmatch.simps split: list.splits if_splits)
next
  case (3 a b s)
  from "3.prems" obtain s1 c1 c2 where a: "(s1, c1) \<in> set (rmatch a s)" and b: "(s', c2) \<in> set (rmatch b s1)"
    by (auto simp: rmatch.simps)
  from "3.IH"(1)[OF a] obtain w1 where "s = w1 @ s1" by blast
  moreover from "3.IH"(2)[OF a _ b] obtain w2 where "s1 = w2 @ s'" by auto
  ultimately show ?case by auto
next
  case (4 a b s)
  then show ?case by (auto simp: rmatch.simps)
next
  case (5 a s)
  from "5.prems" consider "s' = s" | s1 c1 where "(s1, c1) \<in> set (rmatch a s)" "length s1 < length s" "(s', c) \<in> set (rmatch (Star a) s1)"
    by (auto simp: rmatch.simps(5)[of a s] split: if_splits)
  then show ?case
  proof cases
    case 1 then show ?thesis by simp
  next
    case 2
    from "5.IH"(1)[OF 2(1)] obtain w1 where "s = w1 @ s1" by blast
    moreover from "5.IH"(2)[OF 2(1) _ 2(2) 2(3)] obtain w2 where "s1 = w2 @ s'" by auto
    ultimately show ?thesis by auto
  qed
next
  case (6 a s)
  from "6.prems" consider "s' = s" | s1 c1 where "(s1, c1) \<in> set (rmatch a s)" "length s1 < length s" "(s', c) \<in> set (rmatch (Lazy a) s1)"
    by (auto simp: rmatch.simps(6)[of a s] split: if_splits)
  then show ?case
  proof cases
    case 1 then show ?thesis by simp
  next
    case 2
    from "6.IH"(1)[OF 2(1)] obtain w1 where "s = w1 @ s1" by blast
    moreover from "6.IH"(2)[OF 2(1) _ 2(2) 2(3)] obtain w2 where "s1 = w2 @ s'" by auto
    ultimately show ?thesis by auto
  qed
next
  case (7 a s)
  then show ?case by (auto simp: rmatch.simps)
next
  case (8 a s)
  then show ?case by (auto simp: rmatch.simps)
next
  case (9 a s)
  then show ?case by (auto simp: rmatch.simps split: if_splits)
next
  case (10 a s)
  then show ?case by (auto simp: rmatch.simps split: if_splits)
next
  case (11 s)
  then show ?case by (auto simp: rmatch.simps split: if_splits)
qed

lemma nogrp: "\<not> has_grp r \<Longrightarrow> (s', c) \<in> set (rmatch r s) \<Longrightarrow> c = None"
proof (induction r s arbitrary: s' c rule: rmatch.induct)
  case (3 a b s)
  from "3.prems" obtain s1 c1 c2 where a: "(s1, c1) \<in> set (rmatch a s)" and b: "(s', c2) \<in> set (rmatch b s1)"
     and c: "c = or_else c2 c1"
    by (auto simp: rmatch.simps)
  have "c1 = None" using "3.IH"(1)[OF _ a] "3.prems" by simp
  moreover have "c2 = None" using "3.IH"(2)[OF a _ _ b] "3.prems" by simp
  ultimately show ?case using c by (simp add: or_else_def)
next
  case (5 a s)
  from "5.prems" consider "c = None" | s1 c1 where "(s1, c1) \<in> set (rmatch a s)" "length s1 < length s" "(s', c) \<in> set (rmatch (Star a) s1)"
    by (auto simp: rmatch.simps(5)[of a s] split: if_splits)
  then show ?case
  proof cases
    case 1 then show ?thesis by simp
  next
    case 2
    show ?thesis using "5.IH"(2)[OF 2(1) _ 2(2) _ 2(3)] "5.prems" by simp
  qed
next
  case (6 a s)
  from "6.prems" consider "c = None" | s1 c1 where "(s1, c1) \<in> set (rmatch a s)" "length s1 < length s" "(s', c) \<in> set (rmatch (Lazy a) s1)"
    by (auto simp: rmatch.simps(6)[of a s] split: if_splits)
  then show ?case
  proof cases
    case 1 then show ?thesis by simp
  next
    case 2
    show ?thesis using "6.IH"(2)[OF 2(1) _ 2(2) _ 2(3)] "6.prems" by simp
  qed
qed (auto simp: rmatch.simps split: if_splits list.splits)

lemma in_rmatch_Seq:
  "(s2, c) \<in> set (rmatch (Seq a b) s) \<longleftrightarrow>
     (\<exists>s1 c1 c2. (s1, c1) \<in> set (rmatch a s) \<and> (s2, c2) \<in> set (rmatch b s1) \<and> c = or_else c2 c1)"
  by (force simp: rmatch.simps)

lemma star_cls:
  "(s', c) \<in> set (rmatch (Star (Cls C)) s) \<Longrightarrow> \<exists>x. s = x @ s' \<and> (\<forall>ch\<in>set x. C ch)"
proof (induction s arbitrary: s' c)
  case Nil
  then show ?case by (auto simp: rmatch.simps)
next
  case (Cons a s)
  from Cons.prems consider "s' = a # s" | "C a" "(s', c) \<in> set (rmatch (Star (Cls C)) s)"
    by (auto simp: rmatch.simps(5)[of "Cls C" "a # s"] rmatch.simps(2) split: if_splits)
  then show ?case
  proof cases
    case 1
    then show ?thesis by simp
  next
    case 2
    from Cons.IH[OF 2(2)] obtain x where "s = x @ s'" "\<forall>ch\<in>set x. C ch" by blast
    then have "a # s = (a # x) @ s'" "\<forall>ch\<in>set (a # x). C ch" using 2(1) by auto
    then show ?thesis by blast
  qed
qed

lemma plus_cls:
  assumes "(s', c) \<in> set (rmatch (Plus (Cls C)) s)"
  shows "\<exists>x. s = x @ s' \<and> (\<forall>ch\<in>set x. C ch)"
proof -
  from assms obtain s1 c1 c2 where a: "(s1, c1) \<in> set (rmatch (Cls C) s)"
    and b: "(s', c2) \<in> set (rmatch (Star (Cls C)) s1)"
    unfolding Plus_def in_rmatch_Seq by blast
  from a obtain ch where s: "s = ch # s1" "C ch"
    by (auto simp: rmatch.simps split: list.splits if_splits)
  from star_cls[OF b] obtain x where "s1 = x @ s'" "\<forall>ch\<in>set x. C ch" by blast
  then have "s = (ch # x) @ s'" "\<forall>c\<in>set (ch # x). C c" using s by auto
  then show ?thesis by blast
qed

lemma grp_shape:
  assumes "(s', c) \<in> set (rmatch (Grp (Seq (Plus (Cls C)) (Lit l))) s)"
  shows "\<exists>x. c = Some (x @ l) \<and> (\<forall>ch\<in>set x. C ch)"
proof -
  from assms obtain c0 where m: "(s', c0) \<in> set (rmatch (Seq (Plus (Cls C)) (Lit l)) s)"
    and c: "c = Some (take (length s - length s') s)"
    by (auto simp: rmatch.simps(8))
  from m obtain s1 c1 c2 where a: "(s1, c1) \<in> set (rmatch (Plus (Cls C)) s)"
    and b: "(s', c2) \<in> set (rmatch (Lit l) s1)"
    unfolding in_rmatch_Seq by blast
  from plus_cls[OF a] obtain x where x: "s = x @ s1" "\<forall>ch\<in>set x. C ch" by blast
  from b have "s1 = l @ s'" by (auto simp: rmatch.simps prefix_def split: if_splits)
  then have "s = (x @ l) @ s'" using x by simp
  then have "take (length s - length s') s = x @ l" by simp
  then show ?thesis using c x by blast
qed

lemma seq_capsE:
  assumes "(s', Some g) \<in> set (rmatch (Seq a b) s)"
  obtains t t' where "(t', Some g) \<in> set (rmatch a t)"
        | t t' where "(t', Some g) \<in> set (rmatch b t)"
proof -
  from assms obtain s1 c1 c2 where a: "(s1, c1) \<in> set (rmatch a s)"
    and b: "(s', c2) \<in> set (rmatch b s1)" and c: "Some g = or_else c2 c1"
    unfolding in_rmatch_Seq by blast
  show ?thesis
  proof (cases c2)
    case None
    then have "c1 = Some g" using c by (simp add: or_else_def)
    then show ?thesis using a that(1) by blast
  next
    case (Some y)
    then have "c2 = Some g" using c by (simp add: or_else_def)
    then show ?thesis using b that(2) by blast
  qed
qed

lemma fence_pattern_caps:
  assumes "(s', Some g) \<in> set (rmatch (seqs [Lit ''```dart'', Star ws, Lit ''//'', Star ws,
            Grp (seqs [Plus (Cls C), Lit lit]), Lazy anyc, Lit ''```'']) s)"
    and "lit = l @ ''.dart''" and "\<forall>ch\<in>set l. is_path_char ch"
    and "\<And>ch. C ch \<Longrightarrow> is_path_char ch"
  shows "dart_name g"
proof -
  have grp: "dart_name g" if "(t', Some g) \<in> set (rmatch (Grp (Seq (Plus (Cls C)) (Lit lit))) t)" for t t'
  proof -
    from grp_shape[OF that] obtain x where "g = x @ lit" "\<forall>ch\<in>set x. C ch" by auto
    then have "g = (x @ l) @ ''.dart''" "\<forall>ch\<in>set (x @ l). is_path_char ch" using assms(2,3,4) by auto
    then show ?thesis unfolding dart_name_def by blast
  qed
  have no: "False" if "(t', Some g) \<in> set (rmatch r t)" "\<not> has_grp r" for r t t'
    using nogrp[OF that(2) that(1)] by simp
  show ?thesis
    using assms(1) unfolding seqs.simps
    apply (elim seq_capsE)
    apply (auto dest: no grp simp: ws_def anyc_def)
    done
qed

section \<open>Extraction: the keys of the block map\<close>

lemma rfind_rmatch: "rfind r s = Some (i, n, g) \<Longrightarrow> \<exists>t t'. (t', g) \<in> set (rmatch r t)"
proof (induction s arbitrary: i)
  case Nil
  then show ?case by (auto split: list.splits) (metis list.set_intros(1))
next
  case (Cons x xs)
  show ?case
  proof (cases "rmatch r (x # xs)")
    case Nil
    with Cons.prems obtain j where "rfind r xs = Some (j, n, g)" by auto
    then show ?thesis using Cons.IH by blast
  next
    case (Cons p ps)
    with Cons.prems have "snd p = g" by (auto split: prod.splits)
    then have "(fst p, g) \<in> set (rmatch r (x # xs))" using Cons by (cases p) auto
    then show ?thesis by blast
  qed
qed

lemma matchAll_rmatch: "(m, g) \<in> set (matchAll r s) \<Longrightarrow> \<exists>t t'. (t', g) \<in> set (rmatch r t)"
proof (induction r s rule: matchAll.induct)
  case (1 r s)
  show ?case
  proof (cases "rfind r s")
    case None
    with "1.prems" show ?thesis by (simp add: matchAll.simps[of r s])
  next
    case (Some a)
    obtain i n g0 where a: "a = (i, n, g0)" by (cases a)
    from "1.prems" Some a consider "g = g0"
      | "i + max n 1 \<le> length s" "(m, g) \<in> set (matchAll r (drop (i + max n 1) s))"
      by (auto simp: matchAll.simps[of r s] split: if_splits)
    then show ?thesis
    proof cases
      case 1
      then show ?thesis using rfind_rmatch Some a by blast
    next
      case 2
      show ?thesis using "1.IH"[OF Some _ _ 2(1) 2(2)] a by simp
    qed
  qed
qed

lemma path_char_not_dot: "is_path_char ch \<Longrightarrow> ch \<noteq> CHR ''.''"
  by (auto simp: is_path_char_def is_word_def is_upper_def is_lower_def is_digit_def)

lemma path_char_not_space: "is_path_char ch \<Longrightarrow> \<not> is_space ch"
  by (auto simp: is_path_char_def is_word_def is_upper_def is_lower_def is_digit_def is_space_def)

lemma name_char_path: "is_name_char ch \<Longrightarrow> is_path_char ch"
  by (auto simp: is_name_char_def is_path_char_def)

lemma trim_no_space: "\<forall>c\<in>set s. \<not> is_space c \<Longrightarrow> trim s = s"
proof -
  assume a: "\<forall>c\<in>set s. \<not> is_space c"
  have d: "dropWhile is_space t = t" if "\<forall>c\<in>set t. \<not> is_space c" for t
    using that by (cases t) auto
  show ?thesis using a by (simp add: trim_def d)
qed

lemma dart_name_trim: "dart_name g \<Longrightarrow> trim g = g"
proof -
  assume "dart_name g"
  then obtain x where x: "g = x @ ''.dart''" "\<forall>ch\<in>set x. is_path_char ch"
    unfolding dart_name_def by blast
  have "\<forall>c\<in>set ''.dart''. \<not> is_space c" by (simp add: is_space_def)
  then have "\<forall>c\<in>set g. \<not> is_space c" using x path_char_not_space by auto
  then show ?thesis by (rule trim_no_space)
qed

lemma strip_dart: "CHR ''.'' \<notin> set x \<Longrightarrow> replace_first ''.dart'' [] (x @ ''.dart'') = x"
  by (induction x) auto

lemma dart_name_strip_inj:
  assumes "dart_name k1" "dart_name k2"
    and "replace_first ''.dart'' [] k1 = replace_first ''.dart'' [] k2"
  shows "k1 = k2"
proof -
  from assms(1) obtain x1 where x1: "k1 = x1 @ ''.dart''" "\<forall>ch\<in>set x1. is_path_char ch"
    unfolding dart_name_def by blast
  from assms(2) obtain x2 where x2: "k2 = x2 @ ''.dart''" "\<forall>ch\<in>set x2. is_path_char ch"
    unfolding dart_name_def by blast
  have "CHR ''.'' \<notin> set x1" "CHR ''.'' \<notin> set x2" using x1 x2 path_char_not_dot by blast+
  then have "replace_first ''.dart'' [] k1 = x1" "replace_first ''.dart'' [] k2 = x2"
    using x1 x2 strip_dart by simp_all
  then show ?thesis using assms(3) x1 x2 by simp
qed

lemma pattern_caps:
  assumes "i < length patterns" and "(m, Some g) \<in> set (matchAll (patterns ! i) text)"
  shows "dart_name g"
proof -
  from matchAll_rmatch[OF assms(2)] obtain t t' where r: "(t', Some g) \<in> set (rmatch (patterns ! i) t)"
    by blast
  have len: "length patterns = 6" by (simp add: patterns_def)
  consider "i = 0" | "i = 1" | "i = 2" | "i = 3" | "i = 4" | "i = 5" using assms(1) len by linarith
  then show ?thesis
  proof cases
    case 1
    have "\<not> has_grp (patterns ! 0)" by (simp add: patterns_def ws_def anyc_def)
    then show ?thesis using nogrp r 1 by fastforce
  next
    case 2
    have "(t', Some g) \<in> set (rmatch (seqs [Lit ''```dart'', Star ws, Lit ''//'', Star ws,
            Grp (seqs [Plus (Cls is_name_char), Lit ''_screen.dart'']), Lazy anyc, Lit ''```'']) t)"
      using r 2 by (simp add: patterns_def)
    moreover have "''_screen.dart'' = ''_screen'' @ ''.dart''" by simp
    moreover have "\<forall>ch\<in>set ''_screen''. is_path_char ch"
      by (simp add: is_path_char_def is_word_def is_lower_def)
    ultimately show ?thesis using name_char_path by (rule fence_pattern_caps)
  next
    case 3
    have "(t', Some g) \<in> set (rmatch (seqs [Lit ''```dart'', Star ws, Lit ''//'', Star ws,
            Grp (seqs [Plus (Cls is_name_char), Lit ''_widget.dart'']), Lazy anyc, Lit ''```'']) t)"
      using r 3 by (simp add: patterns_def)
    moreover have "''_widget.dart'' = ''_widget'' @ ''.dart''" by simp
    moreover have "\<forall>ch\<in>set ''_widget''. is_path_char ch"
      by (simp add: is_path_char_def is_word_def is_lower_def)
    ultimately show ?thesis using name_char_path by (rule fence_pattern_caps)
  next
    case 4
    have "(t', Some g) \<in> set (rmatch (seqs [Lit ''```dart'', Star ws, Lit ''//'', Star ws,
            Grp (seqs [Plus (Cls is_name_char), Lit ''_model.dart'']), Lazy anyc, Lit ''```'']) t)"
      using r 4 by (simp add: patterns_def)
    moreover have "''_model.dart'' = ''_model'' @ ''.dart''" by simp
    moreover have "\<forall>ch\<in>set ''_model''. is_path_char ch"
      by (simp add: is_path_char_def is_word_def is_lower_def)
    ultimately show ?thesis using name_char_path by (rule fence_pattern_caps)
  next
    case 5
    have "(t', Some g) \<in> set (rmatch (seqs [Lit ''```dart'', Star ws, Lit ''//'', Star ws,
            Grp (seqs [Plus (Cls is_name_char), Lit ''_service.dart'']), Lazy anyc, Lit ''```'']) t)"
      using r 5 by (simp add: patterns_def)
    moreover have "''_service.dart'' = ''_service'' @ ''.dart''" by simp
    moreover have "\<forall>ch\<in>set ''_service''. is_path_char ch"
      by (simp add: is_path_char_def is_word_def is_lower_def)
    ultimately show ?thesis using name_char_path by (rule fence_pattern_caps)
  next
    case 6
    have "(t', Some g) \<in> set (rmatch (seqs [Lit ''```dart'', Star ws, Lit ''//'', Star ws,
            Grp (seqs [Plus (Cls is_path_char), Lit ''.dart'']), Lazy anyc, Lit ''```'']) t)"
      using r 6 by (simp add: patterns_def)
    moreover have "''.dart'' = [] @ ''.dart''" by simp
    moreover have "\<forall>ch\<in>set []. is_path_char ch" by simp
    ultimately show ?thesis by (rule fence_pattern_caps)
  qed
qed

lemma well_named_update: "well_named blocks \<Longrightarrow> dart_name k \<Longrightarrow> well_named (AList.update k v blocks)"
  using dom_update[of k v blocks] by (auto simp: well_named_def distinct_update)

lemma scanMatches_well_named:
  "well_named blocks \<Longrightarrow> \<forall>m g. (m, Some g) \<in> set ms \<longrightarrow> dart_name g \<Longrightarrow>
   well_named (scanMatches skipMain ms blocks)"
proof (induction ms arbitrary: blocks)
  case Nil
  then show ?case by simp
next
  case (Cons p ms)
  obtain m g where p: "p = (m, g)" by (cases p)
  have rest: "\<forall>m g. (m, Some g) \<in> set ms \<longrightarrow> dart_name g" using Cons.prems(2) by auto
  have same: "well_named (scanMatches skipMain ms blocks)"
    using Cons.prems(1) rest by (rule Cons.IH)
  show ?case
  proof (cases g)
    case None
    then show ?thesis using p same by (cases skipMain) simp_all
  next
    case (Some captured)
    then have d: "dart_name captured" using Cons.prems(2) p by auto
    then have t: "trim captured = captured" by (rule dart_name_trim)
    have "well_named (AList.update captured (extractCodeContent m) blocks)"
      using Cons.prems(1) d by (rule well_named_update)
    then have "well_named (scanMatches skipMain ms (AList.update captured (extractCodeContent m) blocks))"
      using rest by (rule Cons.IH)
    then show ?thesis using p Some t same by (cases skipMain) (simp_all add: Let_def)
  qed
qed

lemma scanPatterns_well_named:
  "well_named blocks \<Longrightarrow> \<forall>i\<in>set is. i < length patterns \<Longrightarrow>
   well_named (scanPatterns mainFound text is blocks)"
proof (induction "is" arbitrary: blocks)
  case Nil
  then show ?case by simp
next
  case (Cons i "is")
  have "i < length patterns" using Cons.prems(2) by simp
  then have "\<forall>m g. (m, Some g) \<in> set (matchAll (patterns ! i) text) \<longrightarrow> dart_name g"
    using pattern_caps by blast
  with Cons.prems(1)
  have "well_named (scanMatches (i = 0 \<and> mainFound) (matchAll (patterns ! i) text) blocks)"
    by (rule scanMatches_well_named)
  then show ?case using Cons by simp
qed

lemma show_nat_digits: "\<forall>c\<in>set (show_nat n). is_digit c"
proof (induction n rule: show_nat.induct)
  case (1 n)
  show ?case
  proof (cases "n < 10")
    case True
    then show ?thesis by (subst show_nat.simps) (simp add: is_digit_def)
  next
    case False
    have "n mod 10 < 10" by simp
    then have "is_digit (char_of (48 + n mod 10))" by (simp add: is_digit_def)
    then show ?thesis using False 1 by (subst show_nat.simps) simp
  qed
qed

lemma main_dart_name: "dart_name ''main.dart''"
proof -
  have "''main.dart'' = ''main'' @ ''.dart''" by simp
  moreover have "\<forall>ch\<in>set ''main''. is_path_char ch"
    by (simp add: is_path_char_def is_word_def is_lower_def)
  ultimately show ?thesis unfolding dart_name_def by blast
qed

lemma indexed_dart_name:
  assumes "\<forall>ch\<in>set p. is_path_char ch"
  shows "dart_name (p @ show_nat i @ ''.dart'')"
proof -
  have "\<forall>ch\<in>set (show_nat i). is_path_char ch"
    using show_nat_digits by (auto simp: is_path_char_def is_word_def)
  then have "\<forall>ch\<in>set (p @ show_nat i). is_path_char ch" using assms by auto
  moreover have "p @ show_nat i @ ''.dart'' = (p @ show_nat i) @ ''.dart''" by simp
  ultimately show ?thesis unfolding dart_name_def by blast
qed

lemma infer_dart_name: "dart_name (inferFileNameFromContent content index)"
proof -
  have "dart_name (''screen_'' @ show_nat index @ ''.dart'')"
    by (rule indexed_dart_name) (simp add: is_path_char_def is_word_def is_lower_def)
  moreover have "dart_name (''widget_'' @ show_nat index @ ''.dart'')"
    by (rule indexed_dart_name) (simp add: is_path_char_def is_word_def is_lower_def)
  moreover have "dart_name (''model_'' @ show_nat index @ ''.dart'')"
    by (rule indexed_dart_name) (simp add: is_path_char_def is_word_def is_lower_def)
  moreover have "dart_name (''service_'' @ show_nat index @ ''.dart'')"
    by (rule indexed_dart_name) (simp add: is_path_char_def is_word_def is_lower_def)
  moreover have "dart_name (''file_'' @ show_nat index @ ''.dart'')"
    by (rule indexed_dart_name) (simp add: is_path_char_def is_word_def is_lower_def)
  ultimately show ?thesis using main_dart_name
    unfolding inferFileNameFromContent_def by presburger
qed

lemma genericBlocks_well_named:
  "well_named blocks \<Longrightarrow> well_named (genericBlocks ds i blocks)"
proof (induction ds arbitrary: i blocks)
  case Nil
  then show ?case by simp
next
  case (Cons d ds)
  show ?case using Cons.IH[OF well_named_update[OF Cons.prems infer_dart_name]]
    by (simp add: Let_def)
qed

lemma well_named_Nil: "well_named []"
  by (simp add: well_named_def)

lemma conventionBlocks_well_named: "well_named (conventionBlocks text)"
proof -
  have a: "well_named [(''main.dart'', c)]" for c
    using main_dart_name by (simp add: well_named_def)
  show ?thesis
    unfolding conventionBlocks_def
    by (auto split: option.splits intro!: scanPatterns_well_named a well_named_Nil)
qed

lemma extractFileBlocks_well_named: "well_named (extractFileBlocks text)"
  unfolding extractFileBlocks_def Let_def
  using conventionBlocks_well_named genericBlocks_well_named[OF well_named_Nil] by simp

lemma first_main_block_kept: "extractFileBlocks two_mains = [(''main.dart'', ''A'')]"
  by code_simp

text \<open>
  C3 (the code departs from it): in \<open>two_screens\<close> the comment \<open>// a_screen.dart\<close> heads two
  fenced blocks, with contents A and B. The screen pattern matches both, in that order,
  and the map ends with the content of the second: every match calls \<open>blocks.set\<close>, and
  only \<open>main.dart\<close> is guarded by \<open>blocks.has\<close> (\<open>first_main_block_kept\<close>).
\<close>

theorem last_block_overwrites_first:
  "map (\<lambda>(m, g). (g, extractCodeContent m)) (matchAll (patterns ! 1) two_screens) =
     [(Some ''a_screen.dart'', ''A''), (Some ''a_screen.dart'', ''B'')]
   \<and> extractFileBlocks two_screens = [(''a_screen.dart'', ''B'')]"
  by code_simp


section \<open>Classification: names within a category\<close>

lemma classify_screens:
  "screens (classifyBlock f c b) = screens b \<or> screens (classifyBlock f c b) = screens b @ [mk f c]"
  by (simp add: classifyBlock_def)

lemma classify_widgets:
  "widgets (classifyBlock f c b) = widgets b \<or> widgets (classifyBlock f c b) = widgets b @ [mk f c]"
  by (simp add: classifyBlock_def)

lemma classify_models:
  "models (classifyBlock f c b) = models b \<or> models (classifyBlock f c b) = models b @ [mk f c]"
  by (simp add: classifyBlock_def)

lemma classify_services:
  "services (classifyBlock f c b) = services b \<or> services (classifyBlock f c b) = services b @ [mk f c]"
  by (simp add: classifyBlock_def)

lemma processLoop_names:
  assumes step: "\<And>f c b. sel (classifyBlock f c b) = sel b \<or> sel (classifyBlock f c b) = sel b @ [mk f c]"
    and "distinct (map fst bs)"
  shows "\<exists>ks. distinct ks \<and> set ks \<subseteq> fst ` set bs \<and>
           map name (sel (processLoop bs processedFiles b)) =
             map name (sel b) @ map (replace_first ''.dart'' []) ks"
  using assms(2)
proof (induction bs arbitrary: processedFiles b)
  case Nil
  have "distinct ([]::string list) \<and> set [] \<subseteq> fst ` set ([]::blocks) \<and>
        map name (sel (processLoop [] processedFiles b)) = map name (sel b) @ map (replace_first ''.dart'' []) []"
    by simp
  then show ?case by blast
next
  case (Cons p bs)
  obtain f c where p: "p = (f, c)" by (cases p)
  have d: "distinct (map fst bs)" and nf: "f \<notin> fst ` set bs" using Cons.prems p by auto
  have skip: ?case if "processLoop (p # bs) processedFiles b = processLoop bs processedFiles b"
  proof -
    from Cons.IH[OF d, of processedFiles b] obtain ks where
      "distinct ks" "set ks \<subseteq> fst ` set bs"
      "map name (sel (processLoop bs processedFiles b)) = map name (sel b) @ map (replace_first ''.dart'' []) ks"
      by blast
    then have "distinct ks \<and> set ks \<subseteq> fst ` set (p # bs) \<and>
       map name (sel (processLoop (p # bs) processedFiles b)) = map name (sel b) @ map (replace_first ''.dart'' []) ks"
      using that by auto
    then show ?thesis by blast
  qed
  show ?case
  proof (cases "f \<in> set processedFiles \<or> f = ''main.dart''")
    case True
    then have "processLoop (p # bs) processedFiles b = processLoop bs processedFiles b"
      using p by auto
    then show ?thesis by (rule skip)
  next
    case False
    then have e: "processLoop (p # bs) processedFiles b =
                  processLoop bs (f # processedFiles) (classifyBlock f c b)"
      using p by simp
    from Cons.IH[OF d, of "f # processedFiles" "classifyBlock f c b"] obtain ks where
      ks: "distinct ks" "set ks \<subseteq> fst ` set bs"
      "map name (sel (processLoop bs (f # processedFiles) (classifyBlock f c b))) =
         map name (sel (classifyBlock f c b)) @ map (replace_first ''.dart'' []) ks"
      by blast
    from step[of f c b] show ?thesis
    proof
      assume "sel (classifyBlock f c b) = sel b"
      then have "distinct ks \<and> set ks \<subseteq> fst ` set (p # bs) \<and>
         map name (sel (processLoop (p # bs) processedFiles b)) = map name (sel b) @ map (replace_first ''.dart'' []) ks"
        using ks e by auto
      then show ?thesis by blast
    next
      assume "sel (classifyBlock f c b) = sel b @ [mk f c]"
      then have "distinct (f # ks) \<and> set (f # ks) \<subseteq> fst ` set (p # bs) \<and>
         map name (sel (processLoop (p # bs) processedFiles b)) =
           map name (sel b) @ map (replace_first ''.dart'' []) (f # ks)"
        using ks e nf p by (auto simp: mk_def)
      then show ?thesis by blast
    qed
  qed
qed

lemma processLoop_distinct:
  assumes step: "\<And>f c b. sel (classifyBlock f c b) = sel b \<or> sel (classifyBlock f c b) = sel b @ [mk f c]"
    and "well_named bs" and "sel b = []"
  shows "distinct (map name (sel (processLoop bs processedFiles b)))"
proof -
  have d: "distinct (map fst bs)" and n: "\<forall>k\<in>fst ` set bs. dart_name k"
    using assms(2) by (auto simp: well_named_def)
  from processLoop_names[OF step d, of processedFiles b] obtain ks where
    ks: "distinct ks" "set ks \<subseteq> fst ` set bs"
    "map name (sel (processLoop bs processedFiles b)) = map (replace_first ''.dart'' []) ks"
    using assms(3) by auto
  have "inj_on (replace_first ''.dart'' []) (set ks)"
  proof (rule inj_onI)
    fix x y
    assume x: "x \<in> set ks" and y: "y \<in> set ks"
      and e: "replace_first ''.dart'' [] x = replace_first ''.dart'' [] y"
    have "dart_name x" "dart_name y" using x y ks(2) n by auto
    then show "x = y" using e by (rule dart_name_strip_inj)
  qed
  then show ?thesis using ks by (simp add: distinct_map)
qed

lemma processCodeBlocks_distinct:
  assumes step: "\<And>f c b. sel (classifyBlock f c b) = sel b \<or> sel (classifyBlock f c b) = sel b @ [mk f c]"
    and "well_named bs" and "sel emptyResponse = []"
    and "\<And>m. sel (emptyResponse\<lparr> mainApp := m \<rparr>) = []"
  shows "distinct (map name (sel (processCodeBlocks bs)))"
proof -
  have a: "distinct (map name (sel (processLoop bs pf emptyResponse)))" for pf
    using step assms(2,3) by (rule processLoop_distinct)
  have b: "distinct (map name (sel (processLoop bs pf (emptyResponse\<lparr> mainApp := m \<rparr>))))" for pf m
    using step assms(2,4) by (rule processLoop_distinct)
  show ?thesis unfolding processCodeBlocks_def using a b by (simp split: option.splits)
qed


text \<open>
  C4, as stated, fails on the fallback extractor: \<open>twice_a\<close> has no fenced block, and two
  class definitions named A; the bundle has two widgets named \<open>a\<close>.
\<close>

theorem fallback_repeats_names:
  "map name (widgets (processCode twice_a)) = [''a'', ''a'']
   \<and> \<not> distinct (map name (widgets (processCode twice_a)))"
  by code_simp


text \<open>
  C4, amended: for every response text for which extraction and classification find
  something, so that their bundle is the one returned, the names are pairwise distinct
  within each category: no two screens share a name, nor two widgets, nor two models, nor
  two services.
\<close>

theorem primary_names_distinct:
  assumes "\<not> needsFallback (processCodeBlocks (extractFileBlocks responseText))"
  shows "distinct (map name (screens (processCode responseText)))
       \<and> distinct (map name (widgets (processCode responseText)))
       \<and> distinct (map name (models (processCode responseText)))
       \<and> distinct (map name (services (processCode responseText)))"
proof -
  let ?p = "processCodeBlocks (extractFileBlocks responseText)"
  have w: "well_named (extractFileBlocks responseText)" by (rule extractFileBlocks_well_named)
  have "distinct (map name (screens ?p))"
    by (rule processCodeBlocks_distinct[OF classify_screens w]) (simp_all add: emptyResponse_def)
  moreover have "distinct (map name (widgets ?p))"
    by (rule processCodeBlocks_distinct[OF classify_widgets w]) (simp_all add: emptyResponse_def)
  moreover have "distinct (map name (models ?p))"
    by (rule processCodeBlocks_distinct[OF classify_models w]) (simp_all add: emptyResponse_def)
  moreover have "distinct (map name (services ?p))"
    by (rule processCodeBlocks_distinct[OF classify_services w]) (simp_all add: emptyResponse_def)
  moreover have "screens (processCode responseText) = screens ?p"
    "widgets (processCode responseText) = widgets ?p"
    "models (processCode responseText) = models ?p"
    "services (processCode responseText) = services ?p"
    using assms unfolding processCode_def Let_def by simp_all
  ultimately show ?thesis by simp
qed

theorem primary_names_distinct_witness:
  "\<not> needsFallback (processCodeBlocks (extractFileBlocks two_screens))
   \<and> map name (screens (processCode two_screens)) = [''a_screen'']
   \<and> distinct (map name (screens (processCode two_screens)))
   \<and> distinct (map name (widgets (processCode two_screens)))
   \<and> distinct (map name (models (processCode two_screens)))
   \<and> distinct (map name (services (processCode two_screens)))"
proof -
  have h: "\<not> needsFallback (processCodeBlocks (extractFileBlocks two_screens))" by code_simp
  have n: "map name (screens (processCode two_screens)) = [''a_screen'']" by code_simp
  show ?thesis using primary_names_distinct [OF h] h n by blast
qed

section \<open>The fallback extractor and the pipeline\<close>

lemma ext_classified: "0 < classified (extractWithExtendedPatterns t)"
  by (simp add: extractWithExtendedPatterns_def Let_def classified_def createErrorWidget_def)

lemma ext_worst:
  assumes "classified (fallbackScans t) = 0"
  shows "screens (extractWithExtendedPatterns t) = [] \<and> widgets (extractWithExtendedPatterns t) = [errorWidget t]
       \<and> models (extractWithExtendedPatterns t) = [] \<and> services (extractWithExtendedPatterns t) = []"
  using assms
  by (simp add: extractWithExtendedPatterns_def Let_def classified_def createErrorWidget_def)

lemma processCode_mainApp: "mainApp (processCode t) \<noteq> None"
  by (simp add: processCode_def extractWithExtendedPatterns_def Let_def)

lemma error_message_visible:
  "str_includes (join ''\<newline>'' errorWidgetHead) ''No se pudo procesar la respuesta de la IA''"
  by code_simp


text \<open>
  C2, as stated, fails: \<open>plain_widget\<close> has one fenced block and no filename comment, so
  nothing is found by filename convention; the generic scan of the extractor names the
  block \<open>widget_0.dart\<close>, the classifier keeps it, and the fallback extractor is not
  invoked (it would have named the widget \<open>foo\<close>).
\<close>

theorem generic_scan_skips_fallback:
  "conventionBlocks plain_widget = []
   \<and> \<not> needsFallback (processCodeBlocks (extractFileBlocks plain_widget))
   \<and> map name (widgets (processCode plain_widget)) = [''widget_0'']
   \<and> map name (widgets (extractWithExtendedPatterns plain_widget)) = [''foo'']"
  by code_simp


text \<open>
  C2, amended: for every response text in which nothing is found by filename convention,
  the extractor falls back to its generic scan of dart fences. The fallback extractor is
  invoked exactly when classification then leaves no screen, widget, model, service or
  main entry, and the bundle it returns has at least one of them: in the worst case, when
  its own scans find nothing, exactly one placeholder widget whose code is a fixed text
  with a visible error message around the first 500 characters of the response.
  Otherwise the screens, widgets, models and services of the classifier are returned, and
  there is one of them or the main entry is the extracted one. In both cases the bundle
  has a main entry: it is never empty.
\<close>

theorem bundle_never_empty:
  assumes "conventionBlocks t = []"
  shows "extractFileBlocks t = genericBlocks (map fst (matchAll dartBlockPattern t)) 0 []
    \<and> (needsFallback (processCodeBlocks (extractFileBlocks t)) \<longrightarrow>
          processCode t = extractWithExtendedPatterns t \<and> 0 < classified (processCode t)
          \<and> (classified (fallbackScans t) = 0 \<longrightarrow>
                screens (processCode t) = [] \<and> widgets (processCode t) = [errorWidget t]
                \<and> models (processCode t) = [] \<and> services (processCode t) = []))
    \<and> (\<not> needsFallback (processCodeBlocks (extractFileBlocks t)) \<longrightarrow>
          screens (processCode t) = screens (processCodeBlocks (extractFileBlocks t))
          \<and> widgets (processCode t) = widgets (processCodeBlocks (extractFileBlocks t))
          \<and> models (processCode t) = models (processCodeBlocks (extractFileBlocks t))
          \<and> services (processCode t) = services (processCodeBlocks (extractFileBlocks t))
          \<and> (0 < classified (processCode t)
               \<or> mainApp (processCode t) = mainApp (processCodeBlocks (extractFileBlocks t))))
    \<and> mainApp (processCode t) \<noteq> None
    \<and> code (errorWidget t) =
          join ''\<newline>'' errorWidgetHead @ take 500 t @ join ''\<newline>'' errorWidgetTail
    \<and> str_includes (join ''\<newline>'' errorWidgetHead) ''No se pudo procesar la respuesta de la IA''"
proof -
  let ?p = "processCodeBlocks (extractFileBlocks t)"
  have a: "extractFileBlocks t = genericBlocks (map fst (matchAll dartBlockPattern t)) 0 []"
    using assms by (simp add: extractFileBlocks_def)
  have b: "processCode t = extractWithExtendedPatterns t" if "needsFallback ?p"
    using that by (simp add: processCode_def)
  have c: "screens (processCode t) = screens ?p \<and> widgets (processCode t) = widgets ?p
           \<and> models (processCode t) = models ?p \<and> services (processCode t) = services ?p
           \<and> (0 < classified (processCode t) \<or> mainApp (processCode t) = mainApp ?p)"
    if "\<not> needsFallback ?p"
    using that by (auto simp: processCode_def Let_def needsFallback_def classified_def)
  have d: "code (errorWidget t) =
          join ''\<newline>'' errorWidgetHead @ take 500 t @ join ''\<newline>'' errorWidgetTail"
    by (simp add: errorWidget_def)
  show ?thesis
    using a b c d ext_classified[of t] ext_worst[of t] processCode_mainApp[of t] error_message_visible
    by auto
qed

theorem bundle_never_empty_witness:
  "conventionBlocks ''hello'' = []
   \<and> needsFallback (processCodeBlocks (extractFileBlocks ''hello''))
   \<and> classified (fallbackScans ''hello'') = 0
   \<and> processCode ''hello'' = extractWithExtendedPatterns ''hello''
   \<and> screens (processCode ''hello'') = [] \<and> widgets (processCode ''hello'') = [errorWidget ''hello'']
   \<and> models (processCode ''hello'') = [] \<and> services (processCode ''hello'') = []"
proof -
  have h1: "conventionBlocks ''hello'' = []" by code_simp
  have h2: "needsFallback (processCodeBlocks (extractFileBlocks ''hello''))" by code_simp
  have h3: "classified (fallbackScans ''hello'') = 0" by code_simp
  show ?thesis using bundle_never_empty [OF h1] h1 h2 h3 by blast
qed
















end
